theory Spec2Isabelle
  imports
    Complex_Main
    "HOL-Library.Sublist"
    "HOL-Library.Multiset"
    "HOL-Library.Char_ord"
    "HOL-Library.List_Lexorder"
    "HOL-Library.Option_ord"
    "HOL-Library.Product_Lexorder"
begin

section \<open>Film dashboard (app.py): strings\<close>

text \<open>
  Python strings are modelled as \<^typ>\<open>string\<close>; every character is taken to be ASCII.
  The order on strings is the lexicographic order of the character codes, which is the
  order Python's \<open>list.sort\<close> uses on \<open>str\<close>.
\<close>

definition py_isspace :: "char \<Rightarrow> bool" where
  \<comment> \<open>the ASCII characters that \<open>str.strip()\<close> removes\<close>
  "py_isspace c = (c \<in> set [CHR 0x09, CHR 0x0A, CHR 0x0B, CHR 0x0C, CHR 0x0D,
                              CHR 0x1C, CHR 0x1D, CHR 0x1E, CHR 0x1F, CHR 0x20])"

definition strip :: "string \<Rightarrow> string" where
  "strip s = rev (dropWhile py_isspace (rev (dropWhile py_isspace s)))"

definition upper_letters :: string where
  "upper_letters = ''ABCDEFGHIJKLMNOPQRSTUVWXYZ''"

definition lower_letters :: string where
  "lower_letters = ''abcdefghijklmnopqrstuvwxyz''"

definition lower_chr :: "char \<Rightarrow> char" where
  "lower_chr c = (case map_of (zip upper_letters lower_letters) c of Some d \<Rightarrow> d | None \<Rightarrow> c)"

definition upper_chr :: "char \<Rightarrow> char" where
  "upper_chr c = (case map_of (zip lower_letters upper_letters) c of Some d \<Rightarrow> d | None \<Rightarrow> c)"

definition lower :: "string \<Rightarrow> string" where
  "lower s = map lower_chr s"

definition upper :: "string \<Rightarrow> string" where
  "upper s = map upper_chr s"

definition replace :: "char \<Rightarrow> string \<Rightarrow> string \<Rightarrow> string" where
  \<comment> \<open>\<open>s.replace(old, new)\<close> for a pattern \<open>old\<close> of one character\<close>
  "replace old new s = concat (map (\<lambda>c. if c = old then new else [c]) s)"

subsection \<open>Column names (line 21)\<close>

definition normalize :: "string \<Rightarrow> string" where
  \<comment> \<open>\<open>.str.strip().str.lower().str.replace(" ", "_")\<close> on one column name\<close>
  "normalize name = replace (CHR '' '') ''_'' (lower (strip name))"

definition normalize_columns :: "string list \<Rightarrow> string list" where
  "normalize_columns cols = map normalize cols"

definition norm_chr :: "char \<Rightarrow> char" where
  \<comment> \<open>what lower-casing followed by the replacement does to one character\<close>
  "norm_chr c = (if lower_chr c = CHR '' '' then CHR ''_'' else lower_chr c)"

section \<open>Cells and the two per-cell functions\<close>

text \<open>
  A cell as \<open>read_csv\<close> hands it to a Python function: missing (\<open>NaN\<close>), text, or a whole
  number (a column that holds only whole numbers is read as integers).
\<close>

datatype cell = NaN | Text string | Whole int

datatype error = KeyError string | AttributeError | ValueError

subsection \<open>\<open>clean_censor\<close> (lines 56-67)\<close>

definition clean_censor :: "cell \<Rightarrow> error + string" where
  "clean_censor x =
     (case x of
        NaN \<Rightarrow> Inr ''Unknown''
      | Whole i \<Rightarrow> Inl AttributeError  \<comment> \<open>\<open>x.strip()\<close>: an int has no attribute \<open>strip\<close>\<close>
      | Text s \<Rightarrow>
          (let x = upper (strip s) in
           if x \<in> set [''U'', ''G''] then Inr ''All Ages''
           else if x \<in> set [''UA'', ''PG'', ''PG-13''] then Inr ''Parental Guidance''
           else if x \<in> set [''A'', ''R''] then Inr ''Adults Only''
           else Inr ''Unknown''))"

subsection \<open>\<open>parse_gross\<close> (lines 115-120) and the rounding of line 126\<close>

text \<open>
  A Python float is modelled by the exact decimal value its literal denotes; binary
  rounding and overflow are left out. \<open>float()\<close> is the built-in: optional sign, then
  \<open>inf\<close>, \<open>infinity\<close> or \<open>nan\<close> in any case, or a decimal number whose digit groups may
  hold single underscores between digits, with an optional exponent.
\<close>

datatype pyfloat = Finite rat | Infinite bool | NotANumber

definition digit_val :: "char \<Rightarrow> nat option" where
  "digit_val c = map_of (zip ''0123456789'' [0, 1, 2, 3, 4, 5, 6, 7, 8, 9]) c"

fun digitpart :: "string \<Rightarrow> nat list \<times> string" where
  "digitpart [] = ([], [])"
| "digitpart (c # cs) =
     (case digit_val c of
        None \<Rightarrow> ([], c # cs)
      | Some d \<Rightarrow>
          (case cs of
             u # c' # cs' \<Rightarrow>
               if u = CHR ''_'' \<and> digit_val c' \<noteq> None
               then (case digitpart (c' # cs') of (ds, r) \<Rightarrow> (d # ds, r))
               else (case digitpart cs of (ds, r) \<Rightarrow> (d # ds, r))
           | _ \<Rightarrow> (case digitpart cs of (ds, r) \<Rightarrow> (d # ds, r))))"

definition to_nat :: "nat list \<Rightarrow> nat" where
  "to_nat ds = foldl (\<lambda>a d. 10 * a + d) 0 ds"

definition scale :: "rat \<Rightarrow> int \<Rightarrow> rat" where
  "scale q e = (if 0 \<le> e then q * 10 ^ nat e else q / 10 ^ nat (- e))"

definition exponent :: "string \<Rightarrow> int option" where
  \<comment> \<open>what follows the mantissa: nothing, or \<open>e\<close>/\<open>E\<close>, an optional sign and digits\<close>
  "exponent s =
     (if s = [] then Some 0
      else if hd s = CHR ''e'' \<or> hd s = CHR ''E'' then
        (let r = tl s;
             neg = (r \<noteq> [] \<and> hd r = CHR ''-'');
             r' = (if r \<noteq> [] \<and> (hd r = CHR ''-'' \<or> hd r = CHR ''+'') then tl r else r)
         in case digitpart r' of (ds, rest) \<Rightarrow>
              if ds \<noteq> [] \<and> rest = []
              then Some (if neg then - int (to_nat ds) else int (to_nat ds))
              else None)
      else None)"

definition decimal :: "string \<Rightarrow> rat option" where
  "decimal s =
     (case digitpart s of (ip, r1) \<Rightarrow>
        if r1 \<noteq> [] \<and> hd r1 = CHR ''.'' then
          (case digitpart (tl r1) of (fp, r2) \<Rightarrow>
             if ip = [] \<and> fp = [] then None
             else map_option
                    (scale (of_nat (to_nat ip) + of_nat (to_nat fp) / 10 ^ length fp))
                    (exponent r2))
        else if ip = [] then None
        else map_option (scale (of_nat (to_nat ip))) (exponent r1))"

definition py_float :: "string \<Rightarrow> error + pyfloat" where
  "py_float s =
     (let t = strip s;
          neg = (t \<noteq> [] \<and> hd t = CHR ''-'');
          body = (if t \<noteq> [] \<and> (hd t = CHR ''-'' \<or> hd t = CHR ''+'') then tl t else t)
      in if lower body = ''inf'' \<or> lower body = ''infinity'' then Inr (Infinite neg)
         else if lower body = ''nan'' then Inr NotANumber
         else case decimal body of
                None \<Rightarrow> Inl ValueError
              | Some q \<Rightarrow> Inr (Finite (if neg then - q else q)))"


definition digit_chr :: "nat \<Rightarrow> char" where
  "digit_chr d = ''0123456789'' ! d"

fun show_nat :: "nat \<Rightarrow> string" where
  "show_nat n = (if n < 10 then [digit_chr n] else show_nat (n div 10) @ [digit_chr (n mod 10)])"

declare show_nat.simps [simp del]

definition py_str :: "cell \<Rightarrow> string" where
  "py_str x =
     (case x of
        NaN \<Rightarrow> ''nan''
      | Text s \<Rightarrow> s
      | Whole i \<Rightarrow> (if i < 0 then CHR ''-'' # show_nat (nat (- i)) else show_nat (nat i)))"

definition parse_gross :: "cell \<Rightarrow> pyfloat option" where
  \<comment> \<open>the bare \<open>except\<close> turns every exception into \<open>None\<close>\<close>
  "parse_gross x =
     (let x = py_str x;
          x = strip (replace (CHR '','') [] (replace (CHR ''M'') [] (replace (CHR ''$'') [] x)))
      in case py_float x of Inl e \<Rightarrow> None | Inr f \<Rightarrow> Some f)"

definition isna :: "pyfloat option \<Rightarrow> bool" where
  \<comment> \<open>what \<open>dropna\<close> counts as missing: \<open>None\<close> and \<open>nan\<close>\<close>
  "isna v = (v = None \<or> v = Some NotANumber)"

definition round_half_even :: "rat \<Rightarrow> int" where
  "round_half_even x =
     (let f = \<lfloor>x\<rfloor>; d = x - of_int f
      in if d < 1 / 2 then f else if 1 / 2 < d then f + 1 else if even f then f else f + 1)"

definition round1 :: "pyfloat \<Rightarrow> pyfloat" where
  \<comment> \<open>\<open>.round(1)\<close>\<close>
  "round1 v = (case v of Finite q \<Rightarrow> Finite (of_int (round_half_even (q * 10)) / 10) | _ \<Rightarrow> v)"

section \<open>Tables\<close>

text \<open>
  A row carries the seven attributes of the data model; each may be missing in the file.
  The genre, title, year, rating and runtime columns have the types of the data model; the
  censorship code and the gross are kept as raw cells, since the program hands them to its
  own functions. \<open>columns\<close> is the header after normalisation: a field of a row is
  meaningful only when its column is in the header.
\<close>

record row =
  movie_title :: "string option"
  main_genre :: "string option"
  year :: "int option"
  rating :: "rat option"
  runtime :: "rat option"
  total_gross :: cell
  censor :: cell

record table =
  columns :: "string list"
  rows :: "row list"

definition has_column :: "table \<Rightarrow> string \<Rightarrow> bool" where
  "has_column df c = (c \<in> set (columns df))"

definition dropna :: "'a option list \<Rightarrow> 'a list" where
  "dropna xs = concat (map (\<lambda>x. case x of None \<Rightarrow> [] | Some v \<Rightarrow> [v]) xs)"

fun unique :: "'a list \<Rightarrow> 'a list \<Rightarrow> 'a list" where
  \<comment> \<open>\<open>Series.unique()\<close>: first occurrences, in order of appearance; \<open>seen\<close> is the hash table\<close>
  "unique seen [] = []"
| "unique seen (x # xs) = (if x \<in> set seen then unique seen xs else x # unique (x # seen) xs)"

definition select :: "table \<Rightarrow> bool list \<Rightarrow> table" where
  \<comment> \<open>\<open>df[mask]\<close>: the rows whose mask entry is true\<close>
  "select df keep = df\<lparr>rows := map fst (filter snd (zip (rows df) keep))\<rparr>"

subsection \<open>Sidebar filters (lines 31-51)\<close>

record filter_state =
  selected_main_genre :: string
  selected_year_range :: "int \<times> int"

definition main_genres :: "table \<Rightarrow> string list option" where
  \<comment> \<open>the options of the select box; there is none without the column\<close>
  "main_genres df =
     (if has_column df ''main_genre''
      then Some (''All'' # sort (unique [] (dropna (map main_genre (rows df)))))
      else None)"

definition genre_filter :: "table \<Rightarrow> string \<Rightarrow> table" where
  "genre_filter df selected =
     (if has_column df ''main_genre'' then
        (if selected = ''All'' then df
         else select df (map (\<lambda>r. main_genre r = Some selected) (rows df)))
      else df)"

definition year_ge :: "int option \<Rightarrow> int \<Rightarrow> bool" where
  \<comment> \<open>a comparison with a missing year is false\<close>
  "year_ge y lo = (case y of None \<Rightarrow> False | Some v \<Rightarrow> lo \<le> v)"

definition year_le :: "int option \<Rightarrow> int \<Rightarrow> bool" where
  "year_le y hi = (case y of None \<Rightarrow> False | Some v \<Rightarrow> v \<le> hi)"

definition year_bounds :: "table \<Rightarrow> error + (int \<times> int)" where
  \<comment> \<open>\<open>int(df['year'].min())\<close>, \<open>int(df['year'].max())\<close>: \<open>int(nan)\<close> raises when no year is present\<close>
  "year_bounds df =
     (case dropna (map year (rows df)) of
        [] \<Rightarrow> Inl ValueError
      | y # ys \<Rightarrow> Inr (Min (set (y # ys)), Max (set (y # ys))))"

definition year_filter :: "table \<Rightarrow> table \<Rightarrow> int \<times> int \<Rightarrow> table" where
  \<comment> \<open>the column is looked up in \<open>df\<close>, the mask is built on and applied to \<open>df_filtered\<close>\<close>
  "year_filter df df_filtered selected =
     (if has_column df ''year'' then
        select df_filtered
          (map (\<lambda>r. year_ge (year r) (fst selected) \<and> year_le (year r) (snd selected))
               (rows df_filtered))
      else df_filtered)"

definition apply_filters :: "table \<Rightarrow> filter_state \<Rightarrow> table" where
  "apply_filters df fs =
     year_filter df (genre_filter df (selected_main_genre fs)) (selected_year_range fs)"

text \<open>The two predicates a retained row satisfies.\<close>

definition genre_ok :: "table \<Rightarrow> string \<Rightarrow> row \<Rightarrow> bool" where
  "genre_ok df sel r =
     (\<not> has_column df ''main_genre'' \<or> sel = ''All'' \<or> main_genre r = Some sel)"

definition year_ok :: "table \<Rightarrow> int \<times> int \<Rightarrow> row \<Rightarrow> bool" where
  "year_ok df rng r =
     (\<not> has_column df ''year'' \<or> (\<exists>y. year r = Some y \<and> fst rng \<le> y \<and> y \<le> snd rng))"

subsection \<open>Derived columns and charts (lines 69-149)\<close>

fun apply_all :: "('a \<Rightarrow> error + 'b) \<Rightarrow> 'a list \<Rightarrow> error + 'b list" where
  \<comment> \<open>\<open>Series.apply\<close>: the first exception ends it\<close>
  "apply_all f [] = Inr []"
| "apply_all f (x # xs) =
     (case f x of
        Inl e \<Rightarrow> Inl e
      | Inr y \<Rightarrow> (case apply_all f xs of Inl e \<Rightarrow> Inl e | Inr ys \<Rightarrow> Inr (y # ys)))"

definition censor_group :: "table \<Rightarrow> error + string list" where
  \<comment> \<open>line 69: \<open>df_filtered['censor']\<close> is read without a test of the header\<close>
  "censor_group df_filtered =
     (if has_column df_filtered ''censor''
      then apply_all clean_censor (map censor (rows df_filtered))
      else Inl (KeyError ''censor''))"

definition neg_rating :: "row \<Rightarrow> rat" where
  "neg_rating r = (case rating r of None \<Rightarrow> 0 | Some x \<Rightarrow> - x)"

definition nlargest :: "nat \<Rightarrow> row list \<Rightarrow> row list" where
  \<comment> \<open>\<open>DataFrame.nlargest(n, 'rating')\<close>, \<open>keep='first'\<close>: the rows with a rating in a stable
      sort of the negated ratings, then the rows without one, cut to \<open>n\<close>\<close>
  "nlargest n rs =
     take n (sort_key neg_rating (filter (\<lambda>r. rating r \<noteq> None) rs)
             @ filter (\<lambda>r. rating r = None) rs)"

definition desc_key :: "row \<Rightarrow> nat \<times> rat" where
  \<comment> \<open>the key of a descending order on ratings in which a missing rating comes last\<close>
  "desc_key r = (case rating r of None \<Rightarrow> (1, 0) | Some x \<Rightarrow> (0, - x))"

definition stable_sort_desc :: "row list \<Rightarrow> row list" where
  \<comment> \<open>the spec's words: a stable descending sort by rating\<close>
  "stable_sort_desc rs = sort_key desc_key rs"

definition top10 :: "table \<Rightarrow> error + row list" where
  "top10 df_filtered =
     (if has_column df_filtered ''rating'' then Inr (nlargest 10 (rows df_filtered))
      else Inl (KeyError ''rating''))"

definition group_add :: "(int \<Rightarrow> rat \<times> nat) \<Rightarrow> row \<Rightarrow> (int \<Rightarrow> rat \<times> nat)" where
  \<comment> \<open>one step of the grouped mean: sum and count of the ratings present, per year\<close>
  "group_add acc r =
     (case (year r, rating r) of
        (Some y, Some x) \<Rightarrow> acc(y := (fst (acc y) + x, snd (acc y) + 1))
      | _ \<Rightarrow> acc)"

definition year_avg :: "table \<Rightarrow> (int \<times> rat option) list" where
  \<comment> \<open>\<open>groupby('year')['rating'].mean().reset_index()\<close>: keys sorted, missing keys dropped,
      missing ratings skipped; a group without any rating has the mean \<open>nan\<close> (\<open>None\<close>)\<close>
  "year_avg df_filtered =
     (let keys = sort (unique [] (dropna (map year (rows df_filtered))));
          acc = foldl group_add (\<lambda>y. (0, 0)) (rows df_filtered)
      in map (\<lambda>y. (y, if snd (acc y) = 0 then None
                       else Some (fst (acc y) / of_nat (snd (acc y))))) keys)"

definition ratings_of :: "int \<Rightarrow> row list \<Rightarrow> rat list" where
  \<comment> \<open>the ratings present among the rows of one year\<close>
  "ratings_of y rs = dropna (map rating (filter (\<lambda>r. year r = Some y) rs))"

definition mean :: "rat list \<Rightarrow> rat option" where
  \<comment> \<open>the spec's words: the arithmetic mean; of no value at all it is \<open>nan\<close> (\<open>None\<close>)\<close>
  "mean xs = (if xs = [] then None else Some (sum_list xs / of_nat (length xs)))"

definition gross_scatter :: "table \<Rightarrow> (rat option \<times> pyfloat) list" where
  \<comment> \<open>lines 122-126: parse, drop the rows without a value, round\<close>
  "gross_scatter df_filtered =
     map (\<lambda>(r, g). (rating r, round1 (case g of Some v \<Rightarrow> v | None \<Rightarrow> NotANumber)))
       (filter (\<lambda>(r, g). \<not> isna g)
          (map (\<lambda>r. (r, parse_gross (total_gross r))) (rows df_filtered)))"

record charts =
  chart1 :: "row list option"
  chart2 :: "(int \<times> rat option) list option"
  chart3 :: "rat list option"
  chart4 :: "(rat option \<times> pyfloat) list option"
  chart5 :: "(string \<times> rat option) list option"

definition derive :: "table \<Rightarrow> error + charts" where
  \<comment> \<open>line 69, then the five guarded blocks; a skipped block is \<open>None\<close>\<close>
  "derive df_filtered =
     (case censor_group df_filtered of
        Inl e \<Rightarrow> Inl e
      | Inr groups \<Rightarrow>
          (let has = has_column df_filtered; rs = rows df_filtered
           in Inr \<lparr>chart1 = (if has ''rating'' \<and> has ''movie_title'' \<and> 0 < length rs
                              then Some (nlargest 10 rs) else None),
                   chart2 = (if has ''year'' \<and> has ''rating'' \<and> 0 < length rs
                              then Some (year_avg df_filtered) else None),
                   chart3 = (if has ''runtime_(mins)'' \<and> 0 < length rs
                              then Some (dropna (map runtime rs)) else None),
                   chart4 = (if has ''rating'' \<and> has ''total_gross'' \<and> 0 < length rs
                              then Some (gross_scatter df_filtered) else None),
                   chart5 = (if has ''rating'' \<and> 0 < length rs
                              then Some (zip groups (map rating rs)) else None)\<rparr>))"

definition dashboard :: "table \<Rightarrow> filter_state \<Rightarrow> error + charts" where
  "dashboard df fs = derive (apply_filters df fs)"

section \<open>A small table for evaluation\<close>

definition film :: "string \<Rightarrow> string option \<Rightarrow> int option \<Rightarrow> rat option \<Rightarrow> row" where
  "film title genre y x =
     \<lparr>movie_title = Some title, main_genre = genre, year = y, rating = x,
      runtime = None, total_gross = NaN, censor = NaN\<rparr>"

definition films :: table where
  "films =
     \<lparr>columns = [''movie_title'', ''main_genre'', ''year'', ''rating'', ''censor''],
      rows = [film ''a'' (Some ''Drama'') (Some 2000) (Some 8),
              film ''b'' None (Some 2000) (Some 6),
              film ''c'' (Some ''Action'') (Some 2001) (Some 9),
              film ''d'' (Some ''Drama'') (Some 2010) (Some 8)]\<rparr>"


definition films_no_censor :: table where
  \<comment> \<open>the same file without its censorship column\<close>
  "films_no_censor = films\<lparr>columns := [''movie_title'', ''main_genre'', ''year'', ''rating'']\<rparr>"

section \<open>Properties\<close>

subsection \<open>Strings and column names\<close>

lemma dropWhile_hd_id: "xs = [] \<or> \<not> P (hd xs) \<Longrightarrow> dropWhile P xs = xs"
  by (cases xs) auto

lemma strip_stripped:
  assumes "s = [] \<or> (\<not> py_isspace (hd s) \<and> \<not> py_isspace (last s))"
  shows "strip s = s"
proof (cases "s = []")
  case True
  then show ?thesis by (simp add: strip_def)
next
  case False
  with assms have h: "\<not> py_isspace (hd s)" and l: "\<not> py_isspace (last s)" by auto
  from h have "dropWhile py_isspace s = s" by (simp add: dropWhile_hd_id)
  moreover from l False have "dropWhile py_isspace (rev s) = rev s"
    by (intro dropWhile_hd_id) (simp add: hd_rev)
  ultimately show ?thesis by (simp add: strip_def)
qed

lemma dropWhile_last: "dropWhile P xs \<noteq> [] \<Longrightarrow> last (dropWhile P xs) = last xs"
  by (induction xs) (auto split: if_splits)

lemma strip_ends:
  "strip s = [] \<or> (\<not> py_isspace (hd (strip s)) \<and> \<not> py_isspace (last (strip s)))"
proof (cases "strip s = []")
  case True
  then show ?thesis by simp
next
  case False
  define a where "a = dropWhile py_isspace s"
  define b where "b = dropWhile py_isspace (rev a)"
  have sb: "strip s = rev b" by (simp add: strip_def a_def b_def)
  from False sb have b: "b \<noteq> []" by simp
  have a: "a \<noteq> []"
  proof
    assume "a = []"
    then have "b = []" by (simp add: b_def)
    with b show False by simp
  qed
  from b have "\<not> py_isspace (hd b)" unfolding b_def by (rule hd_dropWhile)
  then have l: "\<not> py_isspace (last (strip s))"
    using b sb by (simp add: last_rev)
  from b have "last b = last (rev a)" unfolding b_def by (rule dropWhile_last)
  then have "hd (strip s) = hd a"
    using a b sb by (simp add: hd_rev last_rev)
  moreover from a have "\<not> py_isspace (hd a)" unfolding a_def by (rule hd_dropWhile)
  ultimately show ?thesis using l by simp
qed

lemma replace_chr_map: "replace old [new] s = map (\<lambda>c. if c = old then new else c) s"
  by (induction s) (auto simp: replace_def)

lemma lower_chr_simp:
  "lower_chr c = (if c \<in> set upper_letters then lower_chr c else c)"
  by (simp add: lower_chr_def upper_letters_def lower_letters_def)

lemma lower_chr_range: "c \<in> set upper_letters \<Longrightarrow> lower_chr c \<in> set lower_letters"
  unfolding upper_letters_def
  by (simp only: set_simps insert_iff empty_iff, elim disjE)
     (simp_all add: lower_chr_def upper_letters_def lower_letters_def)

lemma lower_chr_lower: "c \<in> set lower_letters \<Longrightarrow> lower_chr c = c"
  unfolding lower_letters_def
  by (simp only: set_simps insert_iff empty_iff, elim disjE)
     (simp_all add: lower_chr_def upper_letters_def lower_letters_def)

lemma lower_letters_plain:
  "c \<in> set lower_letters \<Longrightarrow> \<not> py_isspace c \<and> c \<noteq> CHR '' '' \<and> c \<notin> set upper_letters"
  unfolding lower_letters_def
  by (simp only: set_simps insert_iff empty_iff, elim disjE)
     (simp_all add: py_isspace_def upper_letters_def)

lemma underscore_plain: "\<not> py_isspace (CHR ''_'') \<and> CHR ''_'' \<notin> set upper_letters"
  by (simp add: py_isspace_def upper_letters_def)

lemma space_is_space: "py_isspace (CHR '' '')"
  by (simp add: py_isspace_def)

lemma normalize_map: "normalize name = map norm_chr (strip name)"
  by (simp add: normalize_def lower_def replace_chr_map norm_chr_def)

lemma norm_chr_nospace: "\<not> py_isspace c \<Longrightarrow> \<not> py_isspace (norm_chr c)"
proof (cases "c \<in> set upper_letters")
  case True
  then have "lower_chr c \<in> set lower_letters" by (rule lower_chr_range)
  then show ?thesis using lower_letters_plain [of "lower_chr c"] by (simp add: norm_chr_def)
next
  case False
  assume ns: "\<not> py_isspace c"
  from False have "lower_chr c = c" using lower_chr_simp [of c] by simp
  then show ?thesis using ns underscore_plain by (simp add: norm_chr_def)
qed

lemma norm_chr_idem: "norm_chr (norm_chr c) = norm_chr c"
proof (cases "c \<in> set upper_letters")
  case True
  then have d: "lower_chr c \<in> set lower_letters" by (rule lower_chr_range)
  then have "lower_chr (lower_chr c) = lower_chr c" by (rule lower_chr_lower)
  then show ?thesis using lower_letters_plain [OF d] by (simp add: norm_chr_def)
next
  case False
  then have c: "lower_chr c = c" using lower_chr_simp [of c] by simp
  have u: "lower_chr (CHR ''_'') = CHR ''_''"
    using lower_chr_simp [of "CHR ''_''"] underscore_plain by simp
  show ?thesis using c u by (simp add: norm_chr_def)
qed

lemma strip_normalize: "strip (normalize name) = normalize name"
proof (rule strip_stripped)
  let ?t = "strip name"
  show "normalize name = [] \<or>
    (\<not> py_isspace (hd (normalize name)) \<and> \<not> py_isspace (last (normalize name)))"
  proof (cases "?t = []")
    case True
    then show ?thesis by (simp add: normalize_map)
  next
    case False
    with strip_ends [of name] have "\<not> py_isspace (hd ?t)" "\<not> py_isspace (last ?t)" by auto
    then have "\<not> py_isspace (norm_chr (hd ?t))" "\<not> py_isspace (norm_chr (last ?t))"
      by (simp_all add: norm_chr_nospace)
    then show ?thesis using False by (simp add: normalize_map hd_map last_map)
  qed
qed

lemma normalize_idem: "normalize (normalize name) = normalize name"
proof -
  have "normalize (normalize name) = map norm_chr (strip (normalize name))"
    by (rule normalize_map)
  also have "\<dots> = map norm_chr (normalize name)" by (simp only: strip_normalize)
  also have "\<dots> = normalize name" by (simp add: normalize_map norm_chr_idem)
  finally show ?thesis .
qed

text \<open>
  C9: normalising the column names twice gives the same header as normalising them once.
\<close>

theorem normalize_columns_idempotent:
  "normalize_columns (normalize_columns cols) = normalize_columns cols"
  by (simp add: normalize_columns_def normalize_idem)


subsection \<open>Censor groups\<close>


text \<open>
  C5: the classification is meant to return one of the four groups for every cell. On a
  cell that holds a whole number it raises instead: \<open>x.strip()\<close> does not exist for an int.
\<close>

theorem clean_censor_whole_number_raises: "clean_censor (Whole 18) = Inl AttributeError"
  by (simp add: clean_censor_def)

subsection \<open>Filters\<close>

lemma mask_filter: "map fst (filter snd (zip xs (map P xs))) = filter P xs"
  by (induction xs) auto

lemma rows_select: "rows (select df (map P (rows df))) = filter P (rows df)"
  by (simp add: select_def mask_filter)

lemma columns_select: "columns (select df keep) = columns df"
  by (simp add: select_def)

lemma year_mask: "(year_ge v lo \<and> year_le v hi) = (\<exists>y. v = Some y \<and> lo \<le> y \<and> y \<le> hi)"
  by (cases v) (auto simp: year_ge_def year_le_def)

lemma rows_genre_filter: "rows (genre_filter df sel) = filter (genre_ok df sel) (rows df)"
  by (auto simp: genre_filter_def genre_ok_def rows_select intro!: filter_cong)

lemma columns_genre_filter: "columns (genre_filter df sel) = columns df"
  by (simp add: genre_filter_def columns_select)

lemma rows_year_filter: "rows (year_filter df v rng) = filter (year_ok df rng) (rows v)"
  by (auto simp: year_filter_def year_ok_def rows_select year_mask intro!: filter_cong)

lemma columns_year_filter: "columns (year_filter df v rng) = columns v"
  by (simp add: year_filter_def columns_select)

lemma rows_apply_filters:
  "rows (apply_filters df fs) =
     filter (\<lambda>r. genre_ok df (selected_main_genre fs) r \<and> year_ok df (selected_year_range fs) r)
       (rows df)"
  by (simp add: apply_filters_def rows_year_filter rows_genre_filter conj_commute)

lemma columns_apply_filters: "columns (apply_filters df fs) = columns df"
  by (simp add: apply_filters_def columns_year_filter columns_genre_filter)

text \<open>
  C1: for every table and every filter state, the rows that the two filter blocks return
  are a subsequence of the input rows (a subset, in the same relative order), and each of
  them has the selected genre, unless \<open>All\<close> is selected or there is no genre column, and a
  year inside the selected interval, unless there is no year column.
\<close>

theorem apply_filters_sound:
  "subseq (rows (apply_filters df fs)) (rows df)
   \<and> set (rows (apply_filters df fs)) \<subseteq> set (rows df)
   \<and> (\<forall>r \<in> set (rows (apply_filters df fs)).
        (has_column df ''main_genre'' \<and> selected_main_genre fs \<noteq> ''All''
           \<longrightarrow> main_genre r = Some (selected_main_genre fs))
        \<and> (has_column df ''year''
           \<longrightarrow> (\<exists>y. year r = Some y \<and> fst (selected_year_range fs) \<le> y
                     \<and> y \<le> snd (selected_year_range fs))))
   \<and> columns (apply_filters df fs) = columns df"
proof -
  have "subseq (rows (apply_filters df fs)) (rows df)"
    by (simp add: rows_apply_filters)
  moreover have "set (rows (apply_filters df fs)) \<subseteq> set (rows df)"
    by (auto simp: rows_apply_filters)
  moreover have "\<forall>r \<in> set (rows (apply_filters df fs)).
        (has_column df ''main_genre'' \<and> selected_main_genre fs \<noteq> ''All''
           \<longrightarrow> main_genre r = Some (selected_main_genre fs))
        \<and> (has_column df ''year''
           \<longrightarrow> (\<exists>y. year r = Some y \<and> fst (selected_year_range fs) \<le> y
                     \<and> y \<le> snd (selected_year_range fs)))"
    by (auto simp: rows_apply_filters genre_ok_def year_ok_def)
  ultimately show ?thesis by (simp add: columns_apply_filters)
qed

lemma films_filtered:
  "rows (apply_filters films \<lparr>selected_main_genre = ''Drama'', selected_year_range = (1990, 2005)\<rparr>)
     = [film ''a'' (Some ''Drama'') (Some 2000) (Some 8)]"
  by (simp add: rows_apply_filters films_def film_def genre_ok_def year_ok_def has_column_def)

theorem apply_filters_sound_witness:
  "film ''a'' (Some ''Drama'') (Some 2000) (Some 8)
     \<in> set (rows (apply_filters films
          \<lparr>selected_main_genre = ''Drama'', selected_year_range = (1990, 2005)\<rparr>))
   \<and> has_column films ''main_genre'' \<and> has_column films ''year''
   \<and> main_genre (film ''a'' (Some ''Drama'') (Some 2000) (Some 8)) = Some ''Drama''
   \<and> (\<exists>y. year (film ''a'' (Some ''Drama'') (Some 2000) (Some 8)) = Some y
          \<and> 1990 \<le> y \<and> y \<le> 2005)
   \<and> subseq (rows (apply_filters films
          \<lparr>selected_main_genre = ''Drama'', selected_year_range = (1990, 2005)\<rparr>)) (rows films)"
  using apply_filters_sound [of films
      "\<lparr>selected_main_genre = ''Drama'', selected_year_range = (1990, 2005)\<rparr>"]
  by (simp add: films_filtered) (simp add: films_def has_column_def)

subsection \<open>Genre options\<close>

lemma set_dropna: "set (dropna xs) = {v. Some v \<in> set xs}"
  by (induction xs) (auto simp: dropna_def split: option.splits)

lemma set_unique: "set (unique seen xs) = set xs - set seen"
  by (induction xs arbitrary: seen) auto

lemma distinct_unique: "distinct (unique seen xs)"
  by (induction xs arbitrary: seen) (auto simp: set_unique)

lemma sort_unique_dropna:
  "sort (unique [] (dropna xs)) = sorted_list_of_set {v. Some v \<in> set xs}"
proof -
  let ?ys = "sort (unique [] (dropna xs))"
  have "sorted ?ys" "distinct ?ys" by (simp_all add: distinct_unique)
  then have "sorted_list_of_set (set ?ys) = ?ys"
    by (rule sorted_list_of_set.idem_if_sorted_distinct)
  then show ?thesis by (simp add: set_unique set_dropna)
qed

text \<open>
  C10: with a genre column, the options of the select box are \<open>All\<close> followed by the
  distinct genres present, in ascending order; a selection other than \<open>All\<close> drops every
  row without a genre, and \<open>All\<close> keeps the table as it is.
\<close>

theorem main_genres_options:
  assumes "has_column df ''main_genre''"
  shows "main_genres df
           = Some (''All'' # sorted_list_of_set {g. \<exists>r \<in> set (rows df). main_genre r = Some g})
         \<and> (sel \<noteq> ''All'' \<longrightarrow>
              (\<forall>r \<in> set (rows df). main_genre r = None \<longrightarrow> r \<notin> set (rows (genre_filter df sel))))
         \<and> genre_filter df ''All'' = df"
proof -
  have "{v. Some v \<in> set (map main_genre (rows df))}
          = {g. \<exists>r \<in> set (rows df). main_genre r = Some g}"
    by (auto simp: image_iff) metis
  then have "main_genres df
      = Some (''All'' # sorted_list_of_set {g. \<exists>r \<in> set (rows df). main_genre r = Some g})"
    using assms by (simp add: main_genres_def sort_unique_dropna)
  moreover have "sel \<noteq> ''All'' \<longrightarrow>
      (\<forall>r \<in> set (rows df). main_genre r = None \<longrightarrow> r \<notin> set (rows (genre_filter df sel)))"
    using assms by (simp add: rows_genre_filter genre_ok_def)
  moreover have "genre_filter df ''All'' = df"
    using assms by (simp add: genre_filter_def)
  ultimately show ?thesis by blast
qed

theorem main_genres_options_witness:
  "has_column films ''main_genre''
   \<and> film ''b'' None (Some 2000) (Some 6) \<in> set (rows films)
   \<and> main_genre (film ''b'' None (Some 2000) (Some 6)) = None
   \<and> film ''b'' None (Some 2000) (Some 6) \<notin> set (rows (genre_filter films ''Drama''))
   \<and> genre_filter films ''All'' = films
   \<and> main_genres films = Some [''All'', ''Action'', ''Drama'']"
proof -
  have h: "has_column films ''main_genre''" by (simp add: has_column_def films_def)
  have m: "film ''b'' None (Some 2000) (Some 6) \<in> set (rows films)" by (simp add: films_def)
  have n: "main_genre (film ''b'' None (Some 2000) (Some 6)) = None" by (simp add: film_def)
  have o: "main_genres films = Some [''All'', ''Action'', ''Drama'']"
    by (simp add: main_genres_def has_column_def films_def film_def dropna_def)
  from main_genres_options [OF h, of "''Drama''"] m n o h show ?thesis by simp
qed

subsection \<open>Top ten\<close>

lemma desc_key_le: "desc_key a \<le> desc_key b \<longleftrightarrow> rating b \<le> rating a"
  by (cases "rating a"; cases "rating b") (simp_all add: desc_key_def)

lemma desc_key_eq: "desc_key a = desc_key b \<longleftrightarrow> rating a = rating b"
  by (cases "rating a"; cases "rating b") (simp_all add: desc_key_def)

lemma desc_key_present: "rating r \<noteq> None \<Longrightarrow> desc_key r = (0, neg_rating r)"
  by (auto simp: desc_key_def neg_rating_def)

lemma desc_key_missing: "rating r = None \<Longrightarrow> desc_key r = (1, 0)"
  by (simp add: desc_key_def)

lemma neg_rating_eq:
  "rating a \<noteq> None \<Longrightarrow> rating b \<noteq> None \<Longrightarrow> neg_rating a = neg_rating b \<longleftrightarrow> rating a = rating b"
  by (auto simp: neg_rating_def)

lemma sorted_present:
  assumes "\<forall>r \<in> set xs. rating r \<noteq> None" and "sorted (map neg_rating xs)"
  shows "sorted (map desc_key xs)"
  using assms
proof (induction xs)
  case Nil
  then show ?case by simp
next
  case (Cons x xs)
  then show ?case by (auto simp: desc_key_present)
qed

lemma sorted_nlargest_body:
  "sorted (map desc_key (sort_key neg_rating (filter (\<lambda>r. rating r \<noteq> None) rs)
                          @ filter (\<lambda>r. rating r = None) rs))"
proof -
  let ?p = "sort_key neg_rating (filter (\<lambda>r. rating r \<noteq> None) rs)"
  let ?m = "filter (\<lambda>r. rating r = None) rs"
  have p: "sorted (map desc_key ?p)"
    by (rule sorted_present) simp_all
  have m: "map desc_key ?m = replicate (length ?m) (1, 0)"
    by (induction rs) (simp_all add: desc_key_missing)
  have "sorted (map desc_key ?m)" unfolding m by (simp add: sorted_replicate)
  moreover have "\<forall>a \<in> set ?p. \<forall>b \<in> set ?m. desc_key a \<le> desc_key b"
    by (auto simp: desc_key_le)
  ultimately show ?thesis using p by (simp add: sorted_append)
qed

lemma stable_nlargest_body:
  "filter (\<lambda>x. rating x = k) (sort_key neg_rating (filter (\<lambda>r. rating r \<noteq> None) rs)
                              @ filter (\<lambda>r. rating r = None) rs)
   = filter (\<lambda>x. rating x = k) rs"
proof (cases k)
  case None
  have "filter (\<lambda>x. rating x = None) (sort_key neg_rating (filter (\<lambda>r. rating r \<noteq> None) rs)) = []"
    by (simp add: filter_empty_conv)
  then show ?thesis using None by simp
next
  case (Some v)
  let ?A = "filter (\<lambda>r. rating r \<noteq> None) rs"
  have "filter (\<lambda>x. rating x = Some v) (sort_key neg_rating ?A)
          = filter (\<lambda>x. neg_rating x = - v) (sort_key neg_rating ?A)"
    by (rule filter_cong) (auto simp: neg_rating_def)
  also have "\<dots> = filter (\<lambda>x. neg_rating x = - v) ?A"
    by (rule sort_key_stable)
  also have "\<dots> = filter (\<lambda>x. rating x = Some v) rs"
    by (induction rs) (auto simp: neg_rating_def)
  finally show ?thesis using Some by (auto simp: filter_empty_conv)
qed

lemma nlargest_body_sort:
  "sort_key neg_rating (filter (\<lambda>r. rating r \<noteq> None) rs) @ filter (\<lambda>r. rating r = None) rs
     = stable_sort_desc rs"
  unfolding stable_sort_desc_def
proof (rule properties_for_sort_key [symmetric])
  show "mset (sort_key neg_rating (filter (\<lambda>r. rating r \<noteq> None) rs)
              @ filter (\<lambda>r. rating r = None) rs) = mset rs"
    by (induction rs) simp_all
next
  fix k
  show "filter (\<lambda>x. desc_key k = desc_key x)
          (sort_key neg_rating (filter (\<lambda>r. rating r \<noteq> None) rs)
           @ filter (\<lambda>r. rating r = None) rs)
        = filter (\<lambda>x. desc_key k = desc_key x) rs"
    using stable_nlargest_body [of "rating k" rs] by (simp add: desc_key_eq eq_commute)
next
  show "sorted (map desc_key (sort_key neg_rating (filter (\<lambda>r. rating r \<noteq> None) rs)
                               @ filter (\<lambda>r. rating r = None) rs))"
    by (rule sorted_nlargest_body)
qed

lemma nlargest_sort: "nlargest n rs = take n (stable_sort_desc rs)"
  by (simp only: nlargest_def nlargest_body_sort)

lemma sorted_stable_sort_desc: "sorted_wrt (\<lambda>a b. rating b \<le> rating a) (stable_sort_desc rs)"
proof -
  have "sorted (map desc_key (stable_sort_desc rs))" by (simp add: stable_sort_desc_def)
  then show ?thesis by (simp add: sorted_wrt_map desc_key_le)
qed

lemma mset_stable_sort_desc: "mset (stable_sort_desc rs) = mset rs"
  by (simp add: stable_sort_desc_def)

lemma stable_sort_desc_ties:
  "filter (\<lambda>r. rating r = k) (stable_sort_desc rs) = filter (\<lambda>r. rating r = k) rs"
  using stable_nlargest_body [of k rs] by (simp only: nlargest_body_sort)

lemma nlargest_length: "length (nlargest n rs) = min n (length rs)"
  by (simp add: nlargest_sort stable_sort_desc_def min.commute)

lemma nlargest_rest:
  "mset rs - mset (nlargest n rs) = mset (drop n (stable_sort_desc rs))"
proof -
  have "mset rs = mset (take n (stable_sort_desc rs)) + mset (drop n (stable_sort_desc rs))"
    by (simp only: mset_append [symmetric] append_take_drop_id mset_stable_sort_desc)
  then show ?thesis by (simp add: nlargest_sort)
qed

lemma nlargest_subset: "mset (nlargest n rs) \<subseteq># mset rs"
proof -
  have "mset rs = mset (take n (stable_sort_desc rs)) + mset (drop n (stable_sort_desc rs))"
    by (simp only: mset_append [symmetric] append_take_drop_id mset_stable_sort_desc)
  then show ?thesis by (simp add: nlargest_sort)
qed

lemma nlargest_sorted: "sorted_wrt (\<lambda>a b. rating b \<le> rating a) (nlargest n rs)"
proof -
  have "sorted_wrt (\<lambda>a b. rating b \<le> rating a)
          (take n (stable_sort_desc rs) @ drop n (stable_sort_desc rs))"
    by (simp only: append_take_drop_id sorted_stable_sort_desc)
  then show ?thesis by (simp only: sorted_wrt_append nlargest_sort)
qed

lemma nlargest_largest:
  assumes "a \<in> set (nlargest n rs)" and "b \<in># mset rs - mset (nlargest n rs)"
  shows "rating b \<le> rating a"
proof -
  have "sorted_wrt (\<lambda>a b. rating b \<le> rating a)
          (take n (stable_sort_desc rs) @ drop n (stable_sort_desc rs))"
    by (simp only: append_take_drop_id sorted_stable_sort_desc)
  moreover from assms(2) have "b \<in> set (drop n (stable_sort_desc rs))"
    by (simp add: nlargest_rest)
  moreover from assms(1) have "a \<in> set (take n (stable_sort_desc rs))"
    by (simp add: nlargest_sort)
  ultimately show ?thesis by (simp only: sorted_wrt_append)
qed

lemma nlargest_ties:
  "prefix (filter (\<lambda>r. rating r = k) (nlargest n rs)) (filter (\<lambda>r. rating r = k) rs)"
proof -
  have "prefix (filter (\<lambda>r. rating r = k) (take n (stable_sort_desc rs)))
               (filter (\<lambda>r. rating r = k) (stable_sort_desc rs))"
    by (intro filter_mono_prefix take_is_prefix)
  then show ?thesis by (simp only: stable_sort_desc_ties nlargest_sort)
qed

lemma nlargest_all: "length rs \<le> n \<Longrightarrow> mset (nlargest n rs) = mset rs"
  by (simp add: nlargest_sort stable_sort_desc_def)

lemma nlargest_example:
  "nlargest 2 (rows films)
     = [film ''c'' (Some ''Action'') (Some 2001) (Some 9),
        film ''a'' (Some ''Drama'') (Some 2000) (Some 8)]"
  by (simp add: nlargest_def films_def film_def neg_rating_def)

lemma top10_films:
  "top10 films
     = Inr [film ''c'' (Some ''Action'') (Some 2001) (Some 9),
            film ''a'' (Some ''Drama'') (Some 2000) (Some 8),
            film ''d'' (Some ''Drama'') (Some 2010) (Some 8),
            film ''b'' None (Some 2000) (Some 6)]"
  by (simp add: top10_def has_column_def nlargest_def films_def film_def neg_rating_def)

text \<open>
  C6: on a view with a rating column, line 74 returns \<open>min 10 n\<close> of the \<open>n\<close> rows, none
  of the rows left out has a larger rating than a row returned, the rows returned are in
  descending order of rating, rows of equal rating are taken in their original order from
  the first on, and the whole is a stable descending sort cut to ten; with fewer than ten
  rows all are returned. A missing rating counts as smaller than every rating (the order
  on \<^typ>\<open>rat option\<close>).
\<close>

theorem top10_largest:
  assumes "has_column v ''rating''"
  shows "\<exists>out. top10 v = Inr out
     \<and> length out = min 10 (length (rows v))
     \<and> mset out \<subseteq># mset (rows v)
     \<and> (\<forall>a \<in> set out. \<forall>b \<in># mset (rows v) - mset out. rating b \<le> rating a)
     \<and> sorted_wrt (\<lambda>a b. rating b \<le> rating a) out
     \<and> (\<forall>k. prefix (filter (\<lambda>r. rating r = k) out) (filter (\<lambda>r. rating r = k) (rows v)))
     \<and> out = take 10 (stable_sort_desc (rows v))
     \<and> (length (rows v) < 10 \<longrightarrow> mset out = mset (rows v))"
proof -
  let ?out = "nlargest 10 (rows v)"
  have "top10 v = Inr ?out" using assms by (simp add: top10_def)
  moreover have "length ?out = min 10 (length (rows v))" by (rule nlargest_length)
  moreover have "mset ?out \<subseteq># mset (rows v)" by (rule nlargest_subset)
  moreover have "\<forall>a \<in> set ?out. \<forall>b \<in># mset (rows v) - mset ?out. rating b \<le> rating a"
    using nlargest_largest by blast
  moreover have "sorted_wrt (\<lambda>a b. rating b \<le> rating a) ?out" by (rule nlargest_sorted)
  moreover have "\<forall>k. prefix (filter (\<lambda>r. rating r = k) ?out)
                             (filter (\<lambda>r. rating r = k) (rows v))"
    using nlargest_ties by blast
  moreover have "?out = take 10 (stable_sort_desc (rows v))" by (rule nlargest_sort)
  moreover have "length (rows v) < 10 \<longrightarrow> mset ?out = mset (rows v)"
    by (simp add: nlargest_all)
  ultimately show ?thesis by blast
qed

theorem top10_largest_witness:
  "has_column films ''rating'' \<and> length (rows films) < 10
   \<and> top10 films
       = Inr [film ''c'' (Some ''Action'') (Some 2001) (Some 9),
              film ''a'' (Some ''Drama'') (Some 2000) (Some 8),
              film ''d'' (Some ''Drama'') (Some 2010) (Some 8),
              film ''b'' None (Some 2000) (Some 6)]
   \<and> mset [film ''c'' (Some ''Action'') (Some 2001) (Some 9),
            film ''a'' (Some ''Drama'') (Some 2000) (Some 8),
            film ''d'' (Some ''Drama'') (Some 2010) (Some 8),
            film ''b'' None (Some 2000) (Some 6)] = mset (rows films)"
proof -
  have h: "has_column films ''rating''" by (simp add: has_column_def films_def)
  have l: "length (rows films) < 10" by (simp add: films_def)
  from top10_largest [OF h] obtain out where
    o: "top10 films = Inr out" and a: "length (rows films) < 10 \<longrightarrow> mset out = mset (rows films)"
    by blast
  from o have "out = [film ''c'' (Some ''Action'') (Some 2001) (Some 9),
            film ''a'' (Some ''Drama'') (Some 2000) (Some 8),
            film ''d'' (Some ''Drama'') (Some 2010) (Some 8),
            film ''b'' None (Some 2000) (Some 6)]"
    by (simp add: top10_films)
  with a l h top10_films show ?thesis by simp
qed

subsection \<open>Yearly means\<close>

lemma ratings_of_Cons:
  "ratings_of y (r # rs)
     = (case (year r, rating r) of
          (Some y', Some x) \<Rightarrow> if y' = y then x # ratings_of y rs else ratings_of y rs
        | _ \<Rightarrow> ratings_of y rs)"
  by (auto simp: ratings_of_def dropna_def split: option.splits)

lemma ratings_of_Nil: "ratings_of y [] = []"
  by (simp add: ratings_of_def dropna_def)

lemma group_add_apply:
  "group_add acc r y
     = (case (year r, rating r) of
          (Some y', Some x) \<Rightarrow> if y' = y then (fst (acc y) + x, snd (acc y) + 1) else acc y
        | _ \<Rightarrow> acc y)"
  by (simp add: group_add_def split: option.splits)

lemma foldl_group_add:
  "foldl group_add acc rs y
     = (fst (acc y) + sum_list (ratings_of y rs), snd (acc y) + length (ratings_of y rs))"
proof (induction rs arbitrary: acc)
  case Nil
  then show ?case by (simp add: ratings_of_Nil)
next
  case (Cons r rs)
  have "foldl group_add acc (r # rs) y = foldl group_add (group_add acc r) rs y" by simp
  also have "\<dots> = (fst (group_add acc r y) + sum_list (ratings_of y rs),
                     snd (group_add acc r y) + length (ratings_of y rs))"
    by (rule Cons.IH)
  also have "\<dots> = (fst (acc y) + sum_list (ratings_of y (r # rs)),
                     snd (acc y) + length (ratings_of y (r # rs)))"
    by (simp add: ratings_of_Cons group_add_apply split: option.splits)
  finally show ?case .
qed

lemma group_mean:
  "(let acc = foldl group_add (\<lambda>y. (0, 0)) rs
    in if snd (acc y) = 0 then None else Some (fst (acc y) / of_nat (snd (acc y))))
   = mean (ratings_of y rs)"
  by (simp add: foldl_group_add mean_def)

lemma years_present:
  "{y. Some y \<in> year ` set rs} = {y. \<exists>r \<in> set rs. year r = Some y}"
  by (auto simp: image_iff) metis

text \<open>
  C7: the yearly means hold exactly one point for every year present among the rows, in
  ascending order of year, and the value of a point is the arithmetic mean of the ratings
  of the rows of that year (of the ratings present, when some are missing). The rows
  (2000, 8.0), (2000, 6.0), (2001, 9.0) give (2000, 7.0), (2001, 9.0). Ratings are exact
  rationals here.
\<close>

theorem year_avg_mean:
  "year_avg df
     = map (\<lambda>y. (y, mean (ratings_of y (rows df))))
         (sorted_list_of_set {y. \<exists>r \<in> set (rows df). year r = Some y})
   \<and> year_avg \<lparr>columns = [''year'', ''rating''],
                 rows = [film ''a'' None (Some 2000) (Some 8),
                         film ''b'' None (Some 2000) (Some 6),
                         film ''c'' None (Some 2001) (Some 9)]\<rparr>
       = [(2000, Some 7), (2001, Some 9)]"
proof -
  have "year_avg df
     = map (\<lambda>y. (y, mean (ratings_of y (rows df))))
         (sorted_list_of_set {y. \<exists>r \<in> set (rows df). year r = Some y})"
    using group_mean [of "rows df"]
    by (simp add: year_avg_def Let_def sort_unique_dropna years_present)
  moreover have "year_avg \<lparr>columns = [''year'', ''rating''],
                 rows = [film ''a'' None (Some 2000) (Some 8),
                         film ''b'' None (Some 2000) (Some 6),
                         film ''c'' None (Some 2001) (Some 9)]\<rparr>
       = [(2000, Some 7), (2001, Some 9)]"
    by (simp add: year_avg_def Let_def film_def dropna_def group_add_apply)
  ultimately show ?thesis by simp
qed

subsection \<open>Gross values\<close>




lemma strip_Nil: "strip [] = []"
  by (simp add: strip_def)

























subsection \<open>The whole run\<close>

lemma derive_no_censor:
  "\<not> has_column v ''censor'' \<Longrightarrow> derive v = Inl (KeyError ''censor'')"
  by (simp add: derive_def censor_group_def)

lemma has_column_apply_filters: "has_column (apply_filters df fs) c = has_column df c"
  by (simp add: has_column_def columns_apply_filters)

lemma dashboard_no_censor:
  "\<not> has_column df ''censor'' \<Longrightarrow> dashboard df fs = Inl (KeyError ''censor'')"
  by (simp add: dashboard_def derive_no_censor has_column_apply_filters)

lemma derive_empty_view:
  assumes "has_column v ''censor''" and "rows v = []"
  shows "derive v = Inr \<lparr>chart1 = None, chart2 = None, chart3 = None, chart4 = None,
                          chart5 = None\<rparr>"
  using assms by (simp add: derive_def censor_group_def)

lemma dashboard_empty_view:
  assumes "has_column df ''censor''" and "rows (apply_filters df fs) = []"
  shows "dashboard df fs = Inr \<lparr>chart1 = None, chart2 = None, chart3 = None, chart4 = None,
                                 chart5 = None\<rparr>"
  using assms by (simp add: dashboard_def derive_empty_view has_column_apply_filters)

lemma films_no_censor_columns: "\<not> has_column films_no_censor ''censor''"
  by (simp add: films_no_censor_def has_column_def)

text \<open>
  C2: a column that is missing should only switch off the filter or the chart that needs
  it. Line 69 reads the censor column without looking at the header: on the example file
  without that column, with all four rows selected, the run ends in \<open>KeyError\<close>.
\<close>

theorem missing_censor_column_raises:
  "dashboard films_no_censor \<lparr>selected_main_genre = ''All'', selected_year_range = (2000, 2010)\<rparr>
     = Inl (KeyError ''censor'')
   \<and> length (rows (apply_filters films_no_censor
         \<lparr>selected_main_genre = ''All'', selected_year_range = (2000, 2010)\<rparr>)) = 4"
proof -
  have "length (rows (apply_filters films_no_censor
         \<lparr>selected_main_genre = ''All'', selected_year_range = (2000, 2010)\<rparr>)) = 4"
    by (simp add: rows_apply_filters films_no_censor_def films_def film_def genre_ok_def
        year_ok_def has_column_def)
  then show ?thesis by (simp add: dashboard_no_censor films_no_censor_columns)
qed

text \<open>
  C8: on an empty filtered view every chart derivation should give nothing and raise
  nothing. With a censor column that is so (\<open>dashboard_empty_view\<close>); without one, the
  derivation of the censor groups raises \<open>KeyError\<close> on the empty view as well.
\<close>

theorem empty_view_raises:
  "rows (apply_filters films_no_censor
         \<lparr>selected_main_genre = ''All'', selected_year_range = (2003, 2005)\<rparr>) = []
   \<and> dashboard films_no_censor
         \<lparr>selected_main_genre = ''All'', selected_year_range = (2003, 2005)\<rparr>
       = Inl (KeyError ''censor'')"
proof -
  have "rows (apply_filters films_no_censor
         \<lparr>selected_main_genre = ''All'', selected_year_range = (2003, 2005)\<rparr>) = []"
    by (simp add: rows_apply_filters films_no_censor_def films_def film_def genre_ok_def
        year_ok_def has_column_def)
  then show ?thesis by (simp add: dashboard_no_censor films_no_censor_columns)
qed

lemma films_empty_view:
  "dashboard films \<lparr>selected_main_genre = ''All'', selected_year_range = (2003, 2005)\<rparr>
     = Inr \<lparr>chart1 = None, chart2 = None, chart3 = None, chart4 = None, chart5 = None\<rparr>"
proof (rule dashboard_empty_view)
  show "has_column films ''censor''" by (simp add: films_def has_column_def)
  show "rows (apply_filters films
         \<lparr>selected_main_genre = ''All'', selected_year_range = (2003, 2005)\<rparr>) = []"
    by (simp add: rows_apply_filters films_def film_def genre_ok_def year_ok_def has_column_def)
qed

end
